theory Spec2Isabelle
  imports Complex_Main "HOL-Library.AList" "HOL-Library.Multiset"
begin

section \<open>The metadata index (src/services/fileService.js)\<close>

text \<open>
  JavaScript numbers that the service handles are integers far below \<open>2^53\<close>, so they
  are modelled exactly: counts and sizes as \<open>nat\<close>, timestamps (milliseconds of a
  \<^verbatim>\<open>Date\<close>) and the pagination arguments as \<open>int\<close>.

  A \<^verbatim>\<open>Map\<close> iterates in insertion order, \<^verbatim>\<open>set\<close> on a present key keeps the
  key's position and replaces its value, \<^verbatim>\<open>set\<close> on an absent key appends, and
  \<^verbatim>\<open>delete\<close> reports whether the key was there. That is an association list with
  \<open>map_of\<close>, \<open>AList.update\<close> and \<open>AList.delete\<close>.
\<close>

type_synonym ('k, 'v) jsmap = "('k \<times> 'v) list"

definition map_get :: "('k, 'v) jsmap \<Rightarrow> 'k \<Rightarrow> 'v option" where
  "map_get m k = map_of m k"

definition map_has :: "('k, 'v) jsmap \<Rightarrow> 'k \<Rightarrow> bool" where
  "map_has m k = (k \<in> set (map fst m))"

definition map_set :: "('k, 'v) jsmap \<Rightarrow> 'k \<Rightarrow> 'v \<Rightarrow> ('k, 'v) jsmap" where
  "map_set m k v = AList.update k v m"

definition map_delete :: "('k, 'v) jsmap \<Rightarrow> 'k \<Rightarrow> bool \<times> ('k, 'v) jsmap" where
  "map_delete m k = (map_has m k, AList.delete k m)"

definition map_values :: "('k, 'v) jsmap \<Rightarrow> 'v list" where
  "map_values m = map snd m"

text \<open>A property that holds a \<^verbatim>\<open>Date\<close>, holds \<^verbatim>\<open>null\<close>, or is missing.\<close>

datatype jsdate = Absent | Null | Date int

text \<open>
  The object that \<^verbatim>\<open>saveFileMetadata\<close> receives and the record it stores have the
  same shape: the record is the spread of the argument with four properties set. The
  four are optional in the argument (\<open>None\<close>, \<open>Absent\<close>: the property is missing).
\<close>

record metadata =
  fileId :: string
  originalName :: string
  mimeType :: string
  size_bytes :: nat
  s3Key :: string
  s3Location :: string
  userId :: string
  uploadedAt :: int
  createdAt :: "int option"
  updatedAt :: "int option"
  accessCount :: "nat option"
  lastAccessed :: jsdate

record shareEntry =
  sharedAt :: int
  expiresIn :: int
  expiresAt :: int

text \<open>
  The three maps of \<^verbatim>\<open>FileService\<close>. Nothing in the source stores a value in
  \<^verbatim>\<open>accessStats\<close>; only its keys are ever touched (by \<^verbatim>\<open>delete\<close>).
\<close>

record fileService =
  files :: "(string, metadata) jsmap"
  accessStats :: "(string, unit) jsmap"
  shareActivity :: "(string, shareEntry list) jsmap"

definition new_FileService :: fileService where
  "new_FileService = \<lparr>files = [], accessStats = [], shareActivity = []\<rparr>"

text \<open>
  \<^verbatim>\<open>x || 0\<close> on a count: a missing property and \<open>0\<close> both give \<open>0\<close>.
\<close>

definition or0 :: "nat option \<Rightarrow> nat" where
  "or0 x = (case x of None \<Rightarrow> 0 | Some n \<Rightarrow> n)"

text \<open>
  \<^verbatim>\<open>saveFileMetadata(metadata)\<close>. The two \<^verbatim>\<open>new Date()\<close> of the object literal
  are the clock readings \<open>t1\<close> and \<open>t2\<close>. Nothing in the \<^verbatim>\<open>try\<close> block throws, so
  the \<^verbatim>\<open>catch\<close> (status 500) is never entered and the function returns the record.
\<close>

definition saveFileMetadata ::
  "fileService \<Rightarrow> metadata \<Rightarrow> int \<Rightarrow> int \<Rightarrow> metadata \<times> fileService" where
  "saveFileMetadata svc md t1 t2 =
     (let fileRecord = md\<lparr>createdAt := Some t1, updatedAt := Some t2,
                           accessCount := Some 0, lastAccessed := Null\<rparr>
      in (fileRecord, svc\<lparr>files := map_set (files svc) (fileId md) fileRecord\<rparr>))"

definition getFileMetadata :: "fileService \<Rightarrow> string \<Rightarrow> metadata option" where
  "getFileMetadata svc fid = map_get (files svc) fid"

text \<open>
  \<^verbatim>\<open>updateAccessStats(fileId)\<close>: \<open>t1\<close> and \<open>t2\<close> are the two clock readings. The
  function has no \<^verbatim>\<open>throw\<close>: its \<^verbatim>\<open>catch\<close> only logs.
\<close>

definition updateAccessStats :: "fileService \<Rightarrow> string \<Rightarrow> int \<Rightarrow> int \<Rightarrow> fileService" where
  "updateAccessStats svc fid t1 t2 =
     (case map_get (files svc) fid of
        None \<Rightarrow> svc
      | Some md \<Rightarrow>
          svc\<lparr>files := map_set (files svc) fid
                 (md\<lparr>accessCount := Some (or0 (accessCount md) + 1),
                     lastAccessed := Date t1,
                     updatedAt := Some t2\<rparr>)\<rparr>)"

text \<open>\<^verbatim>\<open>deleteFileMetadata(fileId)\<close>: no \<^verbatim>\<open>Map.delete\<close> throws.\<close>

definition deleteFileMetadata :: "fileService \<Rightarrow> string \<Rightarrow> bool \<times> fileService" where
  "deleteFileMetadata svc fid =
     (let (deleted, fs) = map_delete (files svc) fid;
          (_, as) = map_delete (accessStats svc) fid;
          (_, sa) = map_delete (shareActivity svc) fid
      in (deleted, svc\<lparr>files := fs, accessStats := as, shareActivity := sa\<rparr>))"

text \<open>
  \<^verbatim>\<open>logShareActivity(fileId, expiresIn)\<close>: \<open>t1\<close> is \<^verbatim>\<open>new Date()\<close>, \<open>t2\<close> is
  \<^verbatim>\<open>Date.now()\<close>. The function reads only \<^verbatim>\<open>this.shareActivity\<close>.
\<close>

definition logShareActivity :: "fileService \<Rightarrow> string \<Rightarrow> int \<Rightarrow> int \<Rightarrow> int \<Rightarrow> fileService" where
  "logShareActivity svc fid expIn t1 t2 =
     (let activity = (case map_get (shareActivity svc) fid of None \<Rightarrow> [] | Some a \<Rightarrow> a);
          activity' = activity @ [\<lparr>sharedAt = t1, expiresIn = expIn, expiresAt = t2 + expIn * 1000\<rparr>]
      in svc\<lparr>shareActivity := map_set (shareActivity svc) fid activity'\<rparr>)"

subsection \<open>Strings\<close>

text \<open>
  \<^verbatim>\<open>s.startsWith(p)\<close>, \<^verbatim>\<open>s.includes(sub)\<close> and \<^verbatim>\<open>s.toLowerCase()\<close>; the last on
  the ASCII letters (names outside ASCII are outside this model).
\<close>

definition startsWith :: "string \<Rightarrow> string \<Rightarrow> bool" where
  "startsWith s p = (take (length p) s = p)"

fun includes_str :: "string \<Rightarrow> string \<Rightarrow> bool" where
  "includes_str [] sub = (sub = [])"
| "includes_str (c # cs) sub = (startsWith (c # cs) sub \<or> includes_str cs sub)"

definition toLowerCase_char :: "char \<Rightarrow> char" where
  "toLowerCase_char c =
     (let n = (of_char c :: nat) in if 65 \<le> n \<and> n \<le> 90 then char_of (n + 32) else c)"

definition toLowerCase :: "string \<Rightarrow> string" where
  "toLowerCase s = map toLowerCase_char s"

subsection \<open>Listing\<close>

text \<open>
  A JavaScript number that is an integer, \<^verbatim>\<open>Infinity\<close> or \<^verbatim>\<open>NaN\<close>: what
  \<^verbatim>\<open>Math.ceil(total / limit)\<close> can give for a count \<open>total\<close> and an integer
  \<open>limit\<close>. \<open>lt_num p n\<close> is \<^verbatim>\<open>p < n\<close>.
\<close>

datatype jsnum = Num int | Infinity | NaN

definition ceil_div :: "nat \<Rightarrow> int \<Rightarrow> jsnum" where
  "ceil_div t l =
     (if l = 0 then (if t = 0 then NaN else Infinity)
      else Num (- ((- int t) div l)))"

fun lt_num :: "int \<Rightarrow> jsnum \<Rightarrow> bool" where
  "lt_num p (Num n) = (p < n)"
| "lt_num p Infinity = True"
| "lt_num p NaN = False"

text \<open>
  \<^verbatim>\<open>xs.slice(start, fin)\<close> for integer arguments: a negative index counts from the
  end, both are clamped to the array, and an empty range gives the empty array.
\<close>

definition slice :: "'a list \<Rightarrow> int \<Rightarrow> int \<Rightarrow> 'a list" where
  "slice xs start fin =
     (let len = int (length xs);
          k = (if start < 0 then max (len + start) 0 else min start len);
          final = (if fin < 0 then max (len + fin) 0 else min fin len)
      in take (nat (final - k)) (drop (nat k) xs))"

record listOptions =
  page_opt :: "int option"
  limit_opt :: "int option"
  type_opt :: "string option"
  search_opt :: "string option"

record listItem =
  item_fileId :: string
  item_filename :: string
  item_mimeType :: string
  item_size :: nat
  item_uploadedAt :: int
  item_accessCount :: nat
  item_lastAccessed :: jsdate

record listResult =
  files_page :: "listItem list"
  page :: int
  limit :: int
  total_count :: nat
  pages :: jsnum
  hasNext :: bool
  hasPrev :: bool

text \<open>\<^verbatim>\<open>if (type)\<close>, \<^verbatim>\<open>if (search)\<close>: a missing and an empty string are both falsy.\<close>

definition truthy :: "string option \<Rightarrow> bool" where
  "truthy s = (case s of None \<Rightarrow> False | Some v \<Rightarrow> v \<noteq> [])"

definition filter_type :: "string option \<Rightarrow> metadata list \<Rightarrow> metadata list" where
  "filter_type ty fs =
     (if truthy ty then filter (\<lambda>file. includes_str (mimeType file) (the ty)) fs else fs)"

definition filter_search :: "string option \<Rightarrow> metadata list \<Rightarrow> metadata list" where
  "filter_search se fs =
     (if truthy se
      then (let searchLower = toLowerCase (the se)
            in filter (\<lambda>file. includes_str (toLowerCase (originalName file)) searchLower) fs)
      else fs)"

text \<open>
  \<^verbatim>\<open>files.sort((a, b) => new Date(b.uploadedAt) - new Date(a.uploadedAt))\<close>:
  \<^verbatim>\<open>Array.prototype.sort\<close> is stable (the image runs Node 18), and the comparator
  orders by \<open>uploadedAt\<close>, larger first, so this is the stable sort on the key
  \<open>- uploadedAt\<close>.
\<close>

definition sort_newest_first :: "metadata list \<Rightarrow> metadata list" where
  "sort_newest_first fs = sort_key (\<lambda>file. - uploadedAt file) fs"

text \<open>The array that \<^verbatim>\<open>listFiles\<close> paginates: filtered, then sorted.\<close>

definition listed :: "fileService \<Rightarrow> string option \<Rightarrow> string option \<Rightarrow> metadata list" where
  "listed svc ty se =
     sort_newest_first (filter_search se (filter_type ty (map_values (files svc))))"

definition to_item :: "metadata \<Rightarrow> listItem" where
  "to_item file =
     \<lparr>item_fileId = fileId file, item_filename = originalName file,
      item_mimeType = mimeType file, item_size = size_bytes file,
      item_uploadedAt = uploadedAt file, item_accessCount = or0 (accessCount file),
      item_lastAccessed = lastAccessed file\<rparr>"

text \<open>
  \<^verbatim>\<open>listFiles({ page = 1, limit = 20, type, search })\<close>. No statement of the
  \<^verbatim>\<open>try\<close> block throws on records of this shape.
\<close>

definition listFiles :: "fileService \<Rightarrow> listOptions \<Rightarrow> listResult" where
  "listFiles svc opts =
     (let pg = (case page_opt opts of None \<Rightarrow> 1 | Some p \<Rightarrow> p);
          lim = (case limit_opt opts of None \<Rightarrow> 20 | Some l \<Rightarrow> l);
          fs = listed svc (type_opt opts) (search_opt opts);
          total = length fs;
          startIndex = (pg - 1) * lim;
          endIndex = startIndex + lim;
          paginatedFiles = slice fs startIndex endIndex;
          pgs = ceil_div total lim
      in \<lparr>files_page = map to_item paginatedFiles, page = pg, limit = lim,
          total_count = total, pages = pgs, hasNext = lt_num pg pgs, hasPrev = (pg > 1)\<rparr>)"

subsection \<open>Statistics\<close>

definition getFileCategory :: "string \<Rightarrow> string" where
  "getFileCategory mt =
     (if startsWith mt ''image/'' then ''images''
      else if startsWith mt ''video/'' then ''videos''
      else if startsWith mt ''audio/'' then ''audio''
      else if includes_str mt ''pdf'' then ''documents''
      else if includes_str mt ''text/'' then ''text''
      else if includes_str mt ''application/'' then ''applications''
      else ''other'')"

record overview =
  totalFiles :: nat
  totalSize :: nat
  totalAccesses :: nat
  recentUploads :: nat

record stats =
  stats_overview :: overview
  byType :: "(string, nat) jsmap"
  storageByType :: "(string, nat) jsmap"
  avg_fileSize :: nat
  avg_accessesPerFile :: nat
  timestamp :: int

text \<open>\<^verbatim>\<open>acc[category] = (acc[category] || 0) + n\<close>, on an object with string keys.\<close>

definition add_to :: "(string, nat) jsmap \<Rightarrow> string \<Rightarrow> nat \<Rightarrow> (string, nat) jsmap" where
  "add_to acc category n = map_set acc category (or0 (map_get acc category) + n)"

text \<open>\<^verbatim>\<open>Math.round(a / b)\<close> for counts with \<open>b > 0\<close>: halves round up.\<close>

definition round_div :: "nat \<Rightarrow> nat \<Rightarrow> nat" where
  "round_div a b = (2 * a + b) div (2 * b)"

text \<open>
  \<^verbatim>\<open>getUploadStats()\<close>: \<open>t1\<close> is \<^verbatim>\<open>Date.now()\<close>, \<open>t2\<close> the \<^verbatim>\<open>new Date()\<close> of the
  result's timestamp.
\<close>

definition getUploadStats :: "fileService \<Rightarrow> int \<Rightarrow> int \<Rightarrow> stats" where
  "getUploadStats svc t1 t2 =
     (let fs = map_values (files svc);
          nFiles = length fs;
          tSize = fold (\<lambda>file sum. sum + size_bytes file) fs 0;
          tAccesses = fold (\<lambda>file sum. sum + or0 (accessCount file)) fs 0;
          typeDistribution = fold (\<lambda>file acc. add_to acc (getFileCategory (mimeType file)) 1) fs [];
          oneDayAgo = t1 - 24 * 60 * 60 * 1000;
          recent = length (filter (\<lambda>file. uploadedAt file > oneDayAgo) fs);
          storage = fold (\<lambda>file acc. add_to acc (getFileCategory (mimeType file)) (size_bytes file)) fs []
      in \<lparr>stats_overview = \<lparr>totalFiles = nFiles, totalSize = tSize,
                            totalAccesses = tAccesses, recentUploads = recent\<rparr>,
          byType = typeDistribution, storageByType = storage,
          avg_fileSize = (if nFiles > 0 then round_div tSize nFiles else 0),
          avg_accessesPerFile = (if nFiles > 0 then round_div tAccesses nFiles else 0),
          timestamp = t2\<rparr>)"

section \<open>The object-store service (src/services/s3Service.js)\<close>

text \<open>
  What JavaScript throws here: an \<^verbatim>\<open>AppError(message, statusCode)\<close> of the
  application, or an \<^verbatim>\<open>Error\<close> of a library, which has a message only.
\<close>

datatype thrown = AppError string nat | Error string

fun message :: "thrown \<Rightarrow> string" where
  "message (AppError m c) = m"
| "message (Error m) = m"

fun statusCode :: "thrown \<Rightarrow> nat option" where
  "statusCode (AppError m c) = Some c"
| "statusCode (Error m) = None"

text \<open>The file object that multer hands to the controller.\<close>

record multerFile =
  originalname :: string
  mimetype :: string
  size_f :: nat
  path :: string

datatype body = FileStream string | Buffer "nat list"

record uploadParams =
  Bucket :: string
  Key :: string
  Body :: body
  ContentType :: string
  ServerSideEncryption :: string
  Metadata :: "(string \<times> string) list"
  Tagging :: string

record uploadResult =
  res_Key :: string
  res_Location :: string
  res_ETag :: string

record signParams =
  sign_Bucket :: string
  sign_Key :: string
  sign_Expires :: int
  sign_ResponseContentDisposition :: "string option"

text \<open>
  The libraries and the process environment, none of them in the repository, are
  parameters of the model. \<open>'s\<close> is the state of the remote bucket; a promise that
  rejects is \<open>Inl\<close> of the error's message.
  \<^item> \<open>fromFile\<close>: \<^verbatim>\<open>FileType.fromFile(path)\<close>, the sniffed MIME type, if any;
  \<^item> \<open>sharp_toBuffer\<close>: the \<^verbatim>\<open>sharp(path)...toBuffer()\<close> pipeline;
  \<^item> \<open>s3_upload\<close>: \<^verbatim>\<open>s3.upload(params).promise()\<close>;
  \<^item> \<open>s3_getSignedUrlPromise\<close>: signing, which does not change the bucket;
  \<^item> \<open>uuidv4\<close>, \<open>clock\<close>: the \<open>n\<close>-th identifier drawn and the \<open>n\<close>-th clock
    reading of the process.
\<close>

record 's env =
  bucket :: string
  NODE_ENV :: "string option"
  fromFile :: "string \<Rightarrow> string + string option"
  sharp_toBuffer :: "string \<Rightarrow> string + nat list"
  s3_upload :: "'s \<Rightarrow> uploadParams \<Rightarrow> (string + uploadResult) \<times> 's"
  s3_getSignedUrlPromise :: "'s \<Rightarrow> string \<Rightarrow> signParams \<Rightarrow> string + string"
  uuidv4 :: "nat \<Rightarrow> string"
  clock :: "nat \<Rightarrow> int"
  toISOString :: "int \<Rightarrow> string"

text \<open>
  The state that a request can change: the metadata index, the bucket, the temporary
  files on disk, and how many clock readings and identifiers were taken so far.
\<close>

record 's world =
  service :: fileService
  s3 :: 's
  tmp :: "string list"
  ticks :: nat
  draws :: nat

definition new_Date :: "'s env \<Rightarrow> 's world \<Rightarrow> int \<times> 's world" where
  "new_Date env w = (clock env (ticks w), w\<lparr>ticks := Suc (ticks w)\<rparr>)"

definition next_uuid :: "'s env \<Rightarrow> 's world \<Rightarrow> string \<times> 's world" where
  "next_uuid env w = (uuidv4 env (draws w), w\<lparr>draws := Suc (draws w)\<rparr>)"

text \<open>
  \<^verbatim>\<open>try { await fs.unlink(p) } catch { logger.warn(...) }\<close>: the file is gone
  afterwards, and a failure is only logged.
\<close>

definition unlink :: "'s world \<Rightarrow> string \<Rightarrow> 's world" where
  "unlink w p = w\<lparr>tmp := removeAll p (tmp w)\<rparr>"

text \<open>The template string of \<^verbatim>\<open>uploadFile\<close> for the object key.\<close>

definition storageKey :: "string \<Rightarrow> string \<Rightarrow> string \<Rightarrow> string" where
  "storageKey uid fid name = ''uploads/'' @ uid @ ''/'' @ fid @ ''-'' @ name"

record uploadFileResult =
  key :: string
  location :: string
  etag :: string
  res_bucket :: string

text \<open>The \<^verbatim>\<open>try\<close> block of \<^verbatim>\<open>uploadFile({ file, fileId, userId })\<close>.\<close>

definition uploadFile_try ::
  "'s env \<Rightarrow> 's world \<Rightarrow> multerFile \<Rightarrow> string \<Rightarrow> string \<Rightarrow> (thrown + uploadFileResult) \<times> 's world" where
  "uploadFile_try env w f fid uid =
     (case fromFile env (path f) of
        Inl m \<Rightarrow> (Inl (Error m), w)
      | Inr fileTypeResult \<Rightarrow>
          if fileTypeResult \<noteq> None \<and> the fileTypeResult \<noteq> mimetype f
          then (Inl (AppError ''File type validation failed'' 400), w)
          else
            (let k = storageKey uid fid (originalname f);
                 fileStream =
                   (if startsWith (mimetype f) ''image/'' \<and> mimetype f \<noteq> ''image/gif''
                    then (case sharp_toBuffer env (path f) of
                            Inr optimizedBuffer \<Rightarrow> Buffer optimizedBuffer
                          | Inl _ \<Rightarrow> FileStream (path f))
                    else FileStream (path f));
                 contentType = mimetype f;
                 (t, w1) = new_Date env w;
                 params =
                   \<lparr>Bucket = bucket env, Key = k, Body = fileStream, ContentType = contentType,
                    ServerSideEncryption = ''AES256'',
                    Metadata = [(''user-id'', uid), (''file-id'', fid),
                                (''original-name'', originalname f),
                                (''upload-timestamp'', toISOString env t)],
                    Tagging = ''Environment=''
                      @ (if truthy (NODE_ENV env) then the (NODE_ENV env) else ''development'')
                      @ ''&UserId='' @ uid @ ''&FileId='' @ fid\<rparr>;
                 (r, s') = s3_upload env (s3 w1) params
             in (case r of
                   Inl m \<Rightarrow> (Inl (Error m), w1\<lparr>s3 := s'\<rparr>)
                 | Inr result \<Rightarrow>
                     (Inr \<lparr>key = res_Key result, location = res_Location result,
                           etag = res_ETag result, res_bucket = bucket env\<rparr>,
                      w1\<lparr>s3 := s'\<rparr>))))"

text \<open>
  \<^verbatim>\<open>uploadFile\<close>: whatever the \<^verbatim>\<open>try\<close> block throws is caught and thrown again as
  \<^verbatim>\<open>new AppError(`File upload failed: ${error.message}`, 500)\<close>.
\<close>

definition uploadFile ::
  "'s env \<Rightarrow> 's world \<Rightarrow> multerFile \<Rightarrow> string \<Rightarrow> string \<Rightarrow> (thrown + uploadFileResult) \<times> 's world" where
  "uploadFile env w f fid uid =
     (case uploadFile_try env w f fid uid of
        (Inl error, w') \<Rightarrow> (Inl (AppError (''File upload failed: '' @ message error) 500), w')
      | (Inr r, w') \<Rightarrow> (Inr r, w'))"

definition getPresignedUrl :: "'s env \<Rightarrow> 's world \<Rightarrow> string \<Rightarrow> int \<Rightarrow> bool \<Rightarrow> thrown + string" where
  "getPresignedUrl env w k expIn forceDownload =
     (case s3_getSignedUrlPromise env (s3 w) ''getObject''
             \<lparr>sign_Bucket = bucket env, sign_Key = k, sign_Expires = expIn,
              sign_ResponseContentDisposition = (if forceDownload then Some ''attachment'' else None)\<rparr> of
        Inl m \<Rightarrow> Inl (AppError (''Failed to generate access URL: '' @ m) 500)
      | Inr u \<Rightarrow> Inr u)"

section \<open>The upload controller (controllers/uploadController.js)\<close>

record uploadedFile =
  up_fileId :: string
  up_filename :: string
  up_mimeType :: string
  up_size :: nat
  up_url :: string
  up_presignedUrl :: string
  up_uploadedAt :: int

record failedFile =
  failed_filename :: string
  failed_error :: string

record summary =
  sum_total :: nat
  sum_successful :: nat
  sum_failed :: nat

record batchData =
  uploaded :: "uploadedFile list"
  failed :: "failedFile list"
  batch_summary :: summary

text \<open>A response \<^verbatim>\<open>res.status(c).json({ success: true, data, message })\<close>.\<close>

record 'd response =
  status :: nat
  data :: 'd
  response_message :: string

text \<open>\<^verbatim>\<open>req.userId || 'anonymous'\<close>.\<close>

definition userId_or_anonymous :: "string option \<Rightarrow> string" where
  "userId_or_anonymous u = (if truthy u then the u else ''anonymous'')"

text \<open>
  What both controllers do for one file, from \<^verbatim>\<open>uuidv4()\<close> to the metadata: the
  call of \<^verbatim>\<open>uploadFile\<close>, then \<^verbatim>\<open>saveFileMetadata\<close> with a fresh \<^verbatim>\<open>uploadedAt\<close>.
\<close>

definition upload_and_save ::
  "'s env \<Rightarrow> 's world \<Rightarrow> multerFile \<Rightarrow> string option
    \<Rightarrow> (thrown + string \<times> uploadFileResult \<times> metadata) \<times> 's world" where
  "upload_and_save env w f u =
     (let (fid, w1) = next_uuid env w
      in case uploadFile env w1 f fid (userId_or_anonymous u) of
           (Inl error, w2) \<Rightarrow> (Inl error, w2)
         | (Inr result, w2) \<Rightarrow>
             (let (t, w3) = new_Date env w2;
                  (t1, w4) = new_Date env w3;
                  (t2, w5) = new_Date env w4;
                  (fileMetadata, svc') = saveFileMetadata (service w5)
                     \<lparr>fileId = fid, originalName = originalname f, mimeType = mimetype f,
                      size_bytes = size_f f, s3Key = key result, s3Location = location result,
                      userId = userId_or_anonymous u, uploadedAt = t,
                      createdAt = None, updatedAt = None, accessCount = None,
                      lastAccessed = Absent\<rparr> t1 t2
              in (Inr (fid, result, fileMetadata), w5\<lparr>service := svc'\<rparr>)))"

definition uploaded_entry :: "multerFile \<Rightarrow> string \<Rightarrow> uploadFileResult \<Rightarrow> string \<Rightarrow> metadata \<Rightarrow> uploadedFile" where
  "uploaded_entry f fid result presignedUrl fileMetadata =
     \<lparr>up_fileId = fid, up_filename = originalname f, up_mimeType = mimetype f,
      up_size = size_f f, up_url = location result, up_presignedUrl = presignedUrl,
      up_uploadedAt = uploadedAt fileMetadata\<rparr>"

text \<open>The \<^verbatim>\<open>try\<close> block of \<^verbatim>\<open>uploadSingle(req, res, next)\<close>.\<close>

definition uploadSingle_try ::
  "'s env \<Rightarrow> 's world \<Rightarrow> multerFile option \<Rightarrow> string option
    \<Rightarrow> (thrown + uploadedFile response) \<times> 's world" where
  "uploadSingle_try env w req_file req_userId =
     (case req_file of
        None \<Rightarrow> (Inl (AppError ''No file provided'' 400), w)
      | Some f \<Rightarrow>
          (case upload_and_save env w f req_userId of
             (Inl error, w1) \<Rightarrow> (Inl error, w1)
           | (Inr (fid, result, fileMetadata), w1) \<Rightarrow>
               (let w2 = unlink w1 (path f)
                in case getPresignedUrl env w2 (key result) 3600 False of
                     Inl error \<Rightarrow> (Inl error, w2)
                   | Inr presignedUrl \<Rightarrow>
                       (Inr \<lparr>status = 201,
                             data = uploaded_entry f fid result presignedUrl fileMetadata,
                             response_message = ''File uploaded successfully''\<rparr>, w2))))"

text \<open>
  \<^verbatim>\<open>uploadSingle\<close>: \<open>Inl\<close> is the error handed to \<^verbatim>\<open>next\<close>, after the temporary
  file was removed (\<^verbatim>\<open>if (req.file?.path)\<close>).
\<close>

definition uploadSingle ::
  "'s env \<Rightarrow> 's world \<Rightarrow> multerFile option \<Rightarrow> string option
    \<Rightarrow> (thrown + uploadedFile response) \<times> 's world" where
  "uploadSingle env w req_file req_userId =
     (case uploadSingle_try env w req_file req_userId of
        (Inl error, w') \<Rightarrow>
          (Inl error,
           case req_file of
             None \<Rightarrow> w'
           | Some f \<Rightarrow> if path f \<noteq> [] then unlink w' (path f) else w')
      | (Inr r, w') \<Rightarrow> (Inr r, w'))"

text \<open>The inner \<^verbatim>\<open>try\<close> block of \<^verbatim>\<open>uploadMultiple\<close>, up to the entry it pushes.\<close>

definition upload_one ::
  "'s env \<Rightarrow> 's world \<Rightarrow> multerFile \<Rightarrow> string option \<Rightarrow> (thrown + uploadedFile) \<times> 's world" where
  "upload_one env w f req_userId =
     (case upload_and_save env w f req_userId of
        (Inl error, w1) \<Rightarrow> (Inl error, w1)
      | (Inr (fid, result, fileMetadata), w1) \<Rightarrow>
          (case getPresignedUrl env w1 (key result) 3600 False of
             Inl error \<Rightarrow> (Inl error, w1)
           | Inr presignedUrl \<Rightarrow>
               (Inr (uploaded_entry f fid result presignedUrl fileMetadata), w1)))"

text \<open>
  \<^verbatim>\<open>for (const file of req.files) { try { ... } catch (fileError) { ... } }\<close> with the
  two arrays \<open>uploadedFiles\<close> and \<open>failedFiles\<close>; each branch ends by removing the
  temporary file.
\<close>

fun upload_loop ::
  "'s env \<Rightarrow> string option \<Rightarrow> multerFile list \<Rightarrow> uploadedFile list \<Rightarrow> failedFile list \<Rightarrow> 's world
    \<Rightarrow> uploadedFile list \<times> failedFile list \<times> 's world" where
  "upload_loop env u [] uploadedFiles failedFiles w = (uploadedFiles, failedFiles, w)"
| "upload_loop env u (f # rest) uploadedFiles failedFiles w =
     (case upload_one env w f u of
        (Inr entry, w') \<Rightarrow>
          upload_loop env u rest (uploadedFiles @ [entry]) failedFiles (unlink w' (path f))
      | (Inl fileError, w') \<Rightarrow>
          upload_loop env u rest uploadedFiles
            (failedFiles @ [\<lparr>failed_filename = originalname f, failed_error = message fileError\<rparr>])
            (unlink w' (path f)))"

text \<open>A count in a template string: its decimal digits.\<close>

fun show_nat :: "nat \<Rightarrow> string" where
  "show_nat n =
     (if n < 10 then [char_of (48 + n)] else show_nat (n div 10) @ [char_of (48 + n mod 10)])"

declare show_nat.simps [simp del]

text \<open>
  \<^verbatim>\<open>uploadMultiple(req, res, next)\<close>. Only the check for an empty request throws to
  the outer \<^verbatim>\<open>catch\<close>, whose cleanup loop then has no file to remove.
\<close>

definition uploadMultiple ::
  "'s env \<Rightarrow> 's world \<Rightarrow> multerFile list option \<Rightarrow> string option
    \<Rightarrow> (thrown + batchData response) \<times> 's world" where
  "uploadMultiple env w req_files req_userId =
     (case req_files of
        None \<Rightarrow> (Inl (AppError ''No files provided'' 400), w)
      | Some fs \<Rightarrow>
          if length fs = 0 then (Inl (AppError ''No files provided'' 400), w)
          else
            (let (uploadedFiles, failedFiles, w') = upload_loop env req_userId fs [] [] w
             in (Inr \<lparr>status = 201,
                      data = \<lparr>uploaded = uploadedFiles, failed = failedFiles,
                              batch_summary = \<lparr>sum_total = length fs,
                                               sum_successful = length uploadedFiles,
                                               sum_failed = length failedFiles\<rparr>\<rparr>,
                      response_message = ''Upload completed: '' @ show_nat (length uploadedFiles)
                        @ ''/'' @ show_nat (length fs) @ '' files successful''\<rparr>, w')))"

section \<open>The file controller (controllers/fileController.js)\<close>

record shareData =
  share_fileId :: string
  share_filename :: string
  shareableUrl :: string
  share_expiresAt :: int
  share_expiresIn :: int

text \<open>
  \<^verbatim>\<open>createShareableLink(req, res, next)\<close> with \<^verbatim>\<open>req.params.fileId\<close> and
  \<^verbatim>\<open>req.query.expires\<close> (24 hours when missing); the route admits integers only.
  \<open>Inl\<close> is the error handed to \<^verbatim>\<open>next\<close>.
\<close>

definition createShareableLink ::
  "'s env \<Rightarrow> 's world \<Rightarrow> string \<Rightarrow> int option \<Rightarrow> (thrown + shareData response) \<times> 's world" where
  "createShareableLink env w fid expires_opt =
     (let expires = (case expires_opt of None \<Rightarrow> 86400 | Some e \<Rightarrow> e)
      in case getFileMetadata (service w) fid of
           None \<Rightarrow> (Inl (AppError ''File not found'' 404), w)
         | Some fileMetadata \<Rightarrow>
             (case getPresignedUrl env w (s3Key fileMetadata) expires False of
                Inl error \<Rightarrow> (Inl error, w)
              | Inr u \<Rightarrow>
                  (let (t1, w1) = new_Date env w;
                       (t2, w2) = new_Date env w1;
                       w3 = w2\<lparr>service := logShareActivity (service w2) fid expires t1 t2\<rparr>;
                       (t3, w4) = new_Date env w3
                   in (Inr \<lparr>status = 200,
                            data = \<lparr>share_fileId = fid,
                                    share_filename = originalName fileMetadata,
                                    shareableUrl = u,
                                    share_expiresAt = t3 + expires * 1000,
                                    share_expiresIn = expires\<rparr>,
                            response_message = ''Shareable link created successfully''\<rparr>, w4))))"

section \<open>Successive calls\<close>

text \<open>
  One call of \<^verbatim>\<open>updateAccessStats(fileId)\<close> after the other, each with its own two
  clock readings.
\<close>

fun updateAccessStats_times :: "fileService \<Rightarrow> string \<Rightarrow> (int \<times> int) list \<Rightarrow> fileService" where
  "updateAccessStats_times svc fid [] = svc"
| "updateAccessStats_times svc fid ((t1, t2) # ts) =
     updateAccessStats_times (updateAccessStats svc fid t1 t2) fid ts"

section \<open>Concrete inputs\<close>

text \<open>
  An index of three records, two of them uploaded at the same instant, and the list
  options for its second page of two.
\<close>

definition example_record :: "string \<Rightarrow> string \<Rightarrow> string \<Rightarrow> nat \<Rightarrow> int \<Rightarrow> metadata" where
  "example_record fid name mt sz t =
     \<lparr>fileId = fid, originalName = name, mimeType = mt, size_bytes = sz,
      s3Key = storageKey ''anonymous'' fid name, s3Location = ''https://s3/'' @ fid,
      userId = ''anonymous'', uploadedAt = t, createdAt = Some t, updatedAt = Some t,
      accessCount = Some 0, lastAccessed = Null\<rparr>"

definition example_index :: fileService where
  "example_index =
     \<lparr>files = [(''f1'', example_record ''f1'' ''notes.txt'' ''text/plain'' 10 100),
               (''f2'', example_record ''f2'' ''scan.pdf'' ''application/pdf'' 20 300),
               (''f3'', example_record ''f3'' ''pic.gif'' ''image/gif'' 30 100)],
      accessStats = [],
      shareActivity = []\<rparr>"

definition example_options :: listOptions where
  "example_options = \<lparr>page_opt = Some 2, limit_opt = Some 2, type_opt = None, search_opt = None\<rparr>"

text \<open>
  A bucket that accepts every object and records the requests it got, a signer that
  always signs, and a sniffer that recognises a PDF document at \<^verbatim>\<open>/tmp/scan\<close> and
  nothing elsewhere.
\<close>

definition example_env :: "uploadParams list env" where
  "example_env =
     \<lparr>bucket = ''bucket'', NODE_ENV = None,
      fromFile = (\<lambda>p. Inr (if p = ''/tmp/scan'' then Some ''application/pdf'' else None)),
      sharp_toBuffer = (\<lambda>p. Inl ''unsupported image format''),
      s3_upload = (\<lambda>s ps. (Inr \<lparr>res_Key = Key ps, res_Location = ''https://s3/'' @ Key ps,
                                   res_ETag = ''etag''\<rparr>, s @ [ps])),
      s3_getSignedUrlPromise = (\<lambda>s operation ps. Inr (''https://signed/'' @ sign_Key ps)),
      uuidv4 = (\<lambda>n. ''id'' @ replicate n CHR ''+''),
      clock = (\<lambda>n. 1000 + int n),
      toISOString = (\<lambda>t. ''T'')\<rparr>"

definition example_world :: "uploadParams list world" where
  "example_world =
     \<lparr>service = new_FileService, s3 = [], tmp = [''/tmp/notes'', ''/tmp/scan'', ''/tmp/pic''],
      ticks = 0, draws = 0\<rparr>"

definition notes_txt :: multerFile where
  "notes_txt = \<lparr>originalname = ''notes.txt'', mimetype = ''text/plain'', size_f = 10,
                 path = ''/tmp/notes''\<rparr>"

text \<open>Declared as a PNG image, sniffed as a PDF document.\<close>

definition scan_png :: multerFile where
  "scan_png = \<lparr>originalname = ''scan.png'', mimetype = ''image/png'', size_f = 20,
                path = ''/tmp/scan''\<rparr>"

definition pic_gif :: multerFile where
  "pic_gif = \<lparr>originalname = ''pic.gif'', mimetype = ''image/gif'', size_f = 30,
               path = ''/tmp/pic''\<rparr>"

definition passwd_file :: multerFile where
  "passwd_file = \<lparr>originalname = ''../../etc/passwd'', mimetype = ''text/plain'', size_f = 5,
                   path = ''/tmp/evil''\<rparr>"

text \<open>A name with a control character (BEL) in it.\<close>

definition bell_file :: multerFile where
  "bell_file = \<lparr>originalname = ''a'' @ [CHR 0x07] @ ''b.txt'', mimetype = ''text/plain'',
                 size_f = 5, path = ''/tmp/bell''\<rparr>"

section \<open>Map lemmas\<close>

lemma map_get_set: "map_get (map_set m k v) k' = (if k' = k then Some v else map_get m k')"
  by (simp add: map_get_def map_set_def update_conv')

lemma map_has_get: "map_has m k \<longleftrightarrow> map_get m k \<noteq> None"
  by (simp add: map_has_def map_get_def map_of_eq_None_iff)

lemma map_has_delete: "map_has (snd (map_delete m k)) k' \<longleftrightarrow> k' \<noteq> k \<and> map_has m k'"
  by (auto simp: map_has_def map_delete_def AList.delete_eq)

lemma map_get_delete:
  "map_get (snd (map_delete m k)) k' = (if k' = k then None else map_get m k')"
  by (simp add: map_get_def map_delete_def delete_conv')

lemma map_has_set: "map_has (map_set m k v) k' \<longleftrightarrow> k' = k \<or> map_has m k'"
  by (auto simp: map_has_def map_set_def dom_update)

lemma keys_map_set:
  "map fst (map_set m k v) = (if map_has m k then map fst m else map fst m @ [k])"
  by (simp add: map_set_def map_has_def update_keys)

section \<open>Type validation\<close>

lemma uploadFile_try_mismatch:
  assumes "fromFile env (path f) = Inr (Some m)" "m \<noteq> mimetype f"
  shows "uploadFile_try env w f fid uid = (Inl (AppError ''File type validation failed'' 400), w)"
  using assms by (simp add: uploadFile_try_def)

lemma uploadFile_mismatch:
  assumes "fromFile env (path f) = Inr (Some m)" "m \<noteq> mimetype f"
  shows "uploadFile env w f fid uid
         = (Inl (AppError ''File upload failed: File type validation failed'' 500), w)"
  using assms by (simp add: uploadFile_def uploadFile_try_mismatch)

lemma scan_png_sniffed:
  "fromFile example_env (path scan_png) = Inr (Some ''application/pdf'')"
  "''application/pdf'' \<noteq> mimetype scan_png"
  by (simp_all add: example_env_def scan_png_def)

lemma totalFiles_getUploadStats:
  "totalFiles (stats_overview (getUploadStats svc t1 t2)) = length (files svc)"
  by (simp add: getUploadStats_def Let_def map_values_def)

lemma upload_and_save_mismatch:
  assumes "fromFile env (path f) = Inr (Some m)" "m \<noteq> mimetype f"
  shows "upload_and_save env w f u
         = (Inl (AppError ''File upload failed: File type validation failed'' 500),
            w\<lparr>draws := Suc (draws w)\<rparr>)"
  using assms by (simp add: upload_and_save_def next_uuid_def uploadFile_mismatch)

lemma uploadSingle_mismatch:
  assumes "fromFile env (path f) = Inr (Some m)" "m \<noteq> mimetype f"
  shows "uploadSingle env w (Some f) u
         = (Inl (AppError ''File upload failed: File type validation failed'' 500),
            if path f \<noteq> [] then unlink (w\<lparr>draws := Suc (draws w)\<rparr>) (path f)
            else w\<lparr>draws := Suc (draws w)\<rparr>)"
  using assms by (simp add: uploadSingle_def uploadSingle_try_def upload_and_save_mismatch)

lemma upload_one_mismatch:
  assumes "fromFile env (path f) = Inr (Some m)" "m \<noteq> mimetype f"
  shows "upload_one env w f u
         = (Inl (AppError ''File upload failed: File type validation failed'' 500),
            w\<lparr>draws := Suc (draws w)\<rparr>)"
  using assms by (simp add: upload_one_def upload_and_save_mismatch)

text \<open>
  C1. An upload whose sniffed type is defined and differs from the declared type should
  fail with a validation error of the 4xx kind. In the code the \<^verbatim>\<open>try\<close> block of
  \<^verbatim>\<open>uploadFile\<close> throws \<^verbatim>\<open>AppError('File type validation failed', 400)\<close>, and the
  \<^verbatim>\<open>catch\<close> of the same function throws it again with status 500, the status of a
  storage failure: for the PNG upload that sniffs as PDF the caller gets status 500.
\<close>

theorem uploadFile_mismatch_surfaces_as_500:
  "uploadFile_try example_env example_world scan_png ''id'' ''anonymous''
     = (Inl (AppError ''File type validation failed'' 400), example_world)
   \<and> uploadFile example_env example_world scan_png ''id'' ''anonymous''
     = (Inl (AppError ''File upload failed: File type validation failed'' 500), example_world)
   \<and> fst (uploadSingle example_env example_world (Some scan_png) None)
     = Inl (AppError ''File upload failed: File type validation failed'' 500)
   \<and> map_option statusCode
        (case fst (uploadSingle example_env example_world (Some scan_png) None) of
           Inl error \<Rightarrow> Some error | Inr _ \<Rightarrow> None) = Some (Some 500)"
  using uploadFile_try_mismatch[OF scan_png_sniffed] uploadFile_mismatch[OF scan_png_sniffed]
    uploadSingle_mismatch[OF scan_png_sniffed]
  by simp

text \<open>
  C7. An upload that fails type validation (sniffed type defined and different from the
  declared one) writes nothing to the bucket and creates no metadata record: whatever
  the bucket's client does, \<^verbatim>\<open>uploadSingle\<close> hands an error to \<^verbatim>\<open>next\<close> and leaves
  the bucket and the metadata index as they were, so \<^verbatim>\<open>getUploadStats\<close> answers as
  before; the same holds for one file of a batch.
\<close>

theorem uploadSingle_validation_failure_leaves_state:
  assumes "fromFile env (path f) = Inr (Some m)" "m \<noteq> mimetype f"
  shows "isl (fst (uploadSingle env w (Some f) u))
     \<and> s3 (snd (uploadSingle env w (Some f) u)) = s3 w
     \<and> service (snd (uploadSingle env w (Some f) u)) = service w
     \<and> getUploadStats (service (snd (uploadSingle env w (Some f) u))) t1 t2
         = getUploadStats (service w) t1 t2
     \<and> isl (fst (upload_one env w f u))
     \<and> s3 (snd (upload_one env w f u)) = s3 w
     \<and> service (snd (upload_one env w f u)) = service w"
  by (simp add: uploadSingle_mismatch[OF assms] upload_one_mismatch[OF assms] unlink_def)

theorem uploadSingle_validation_failure_leaves_state_witness:
  "fromFile example_env (path scan_png) = Inr (Some ''application/pdf'')
   \<and> ''application/pdf'' \<noteq> mimetype scan_png
   \<and> isl (fst (uploadSingle example_env (example_world\<lparr>service := example_index\<rparr>) (Some scan_png) None))
   \<and> s3 (snd (uploadSingle example_env (example_world\<lparr>service := example_index\<rparr>) (Some scan_png) None)) = []
   \<and> service (snd (uploadSingle example_env (example_world\<lparr>service := example_index\<rparr>) (Some scan_png) None))
      = example_index
   \<and> totalFiles (stats_overview (getUploadStats
        (service (snd (uploadSingle example_env (example_world\<lparr>service := example_index\<rparr>) (Some scan_png) None)))
        2000 2000)) = 3"
proof -
  have e: "s3 example_world = []" by (simp add: example_world_def)
  have n: "totalFiles (stats_overview (getUploadStats example_index 2000 2000)) = 3"
    by (simp add: totalFiles_getUploadStats example_index_def)
  show ?thesis
    using uploadSingle_validation_failure_leaves_state[OF scan_png_sniffed,
        of "example_world\<lparr>service := example_index\<rparr>" None 2000 2000] scan_png_sniffed e n
    by simp
qed

section \<open>The object key\<close>

lemma uploadFile_key_verbatim:
  assumes "fromFile env (path f) = Inr r" "r = None \<or> r = Some (mimetype f)"
  shows "\<exists>ps. Key ps = ''uploads/'' @ uid @ ''/'' @ fid @ ''-'' @ originalname f
           \<and> drop (length (''uploads/'' @ uid @ ''/'' @ fid @ ''-'')) (Key ps) = originalname f
           \<and> s3 (snd (uploadFile env w f fid uid)) = snd (s3_upload env (s3 w) ps)
           \<and> (\<forall>res. fst (s3_upload env (s3 w) ps) = Inr res \<longrightarrow>
                 fst (uploadFile env w f fid uid)
                   = Inr \<lparr>key = res_Key res, location = res_Location res,
                          etag = res_ETag res, res_bucket = bucket env\<rparr>)"
proof -
  define fileStream where "fileStream =
     (if startsWith (mimetype f) ''image/'' \<and> mimetype f \<noteq> ''image/gif''
      then (case sharp_toBuffer env (path f) of
              Inr optimizedBuffer \<Rightarrow> Buffer optimizedBuffer
            | Inl _ \<Rightarrow> FileStream (path f))
      else FileStream (path f))"
  define ps where "ps =
     \<lparr>Bucket = bucket env, Key = storageKey uid fid (originalname f), Body = fileStream,
      ContentType = mimetype f, ServerSideEncryption = ''AES256'',
      Metadata = [(''user-id'', uid), (''file-id'', fid), (''original-name'', originalname f),
                  (''upload-timestamp'', toISOString env (clock env (ticks w)))],
      Tagging = ''Environment='' @ (if truthy (NODE_ENV env) then the (NODE_ENV env) else ''development'')
                @ ''&UserId='' @ uid @ ''&FileId='' @ fid\<rparr>"
  have valid: "\<not> (r \<noteq> None \<and> the r \<noteq> mimetype f)" using assms(2) by auto
  have tr: "uploadFile_try env w f fid uid =
     (case fst (s3_upload env (s3 w) ps) of
        Inl m \<Rightarrow> (Inl (Error m), w\<lparr>ticks := Suc (ticks w), s3 := snd (s3_upload env (s3 w) ps)\<rparr>)
      | Inr result \<Rightarrow>
          (Inr \<lparr>key = res_Key result, location = res_Location result,
                etag = res_ETag result, res_bucket = bucket env\<rparr>,
           w\<lparr>ticks := Suc (ticks w), s3 := snd (s3_upload env (s3 w) ps)\<rparr>))"
    unfolding uploadFile_try_def assms(1) sum.case if_not_P[OF valid]
    by (simp add: Let_def new_Date_def case_prod_beta ps_def fileStream_def cong: sum.case_cong)
  have k: "Key ps = ''uploads/'' @ uid @ ''/'' @ fid @ ''-'' @ originalname f"
    by (simp add: ps_def storageKey_def)
  have s: "s3 (snd (uploadFile env w f fid uid)) = snd (s3_upload env (s3 w) ps)"
    by (cases "fst (s3_upload env (s3 w) ps)") (simp_all add: uploadFile_def tr)
  have r: "fst (uploadFile env w f fid uid)
             = Inr \<lparr>key = res_Key res, location = res_Location res,
                    etag = res_ETag res, res_bucket = bucket env\<rparr>"
    if "fst (s3_upload env (s3 w) ps) = Inr res" for res
    using that by (simp add: uploadFile_def tr)
  show ?thesis
    using k s r by (intro exI[of _ ps]) simp
qed

text \<open>
  C3. The object key should be built from the owner, the file identifier and a
  sanitised form of the declared name, with path separators and control characters
  stripped. The code interpolates \<^verbatim>\<open>file.originalname\<close> as it is: for the declared
  name \<^verbatim>\<open>../../etc/passwd\<close> the key put into the bucket is
  \<^verbatim>\<open>uploads/anonymous/id-../../etc/passwd\<close>, with the name's separators after the
  prefix, and a name with a control character keeps it.
\<close>

theorem uploadFile_key_keeps_name_verbatim:
  "fst (uploadFile example_env example_world passwd_file ''id'' ''anonymous'')
     = Inr \<lparr>key = ''uploads/anonymous/id-../../etc/passwd'',
            location = ''https://s3/uploads/anonymous/id-../../etc/passwd'',
            etag = ''etag'', res_bucket = ''bucket''\<rparr>
   \<and> map Key (s3 (snd (uploadFile example_env example_world passwd_file ''id'' ''anonymous'')))
     = [''uploads/anonymous/id-../../etc/passwd'']
   \<and> CHR ''/'' \<in> set (drop (length ''uploads/anonymous/id-'')
        (storageKey ''anonymous'' ''id'' (originalname passwd_file)))
   \<and> map Key (s3 (snd (uploadFile example_env example_world bell_file ''id'' ''anonymous'')))
     = [''uploads/anonymous/id-a'' @ [CHR 0x07] @ ''b.txt'']"
  by (simp add: uploadFile_def uploadFile_try_def storageKey_def new_Date_def Let_def
      example_env_def example_world_def passwd_file_def bell_file_def startsWith_def truthy_def)

section \<open>Batches\<close>

lemma upload_one_filename:
  "upload_one env w f u = (Inr entry, w') \<Longrightarrow> up_filename entry = originalname f"
  by (auto simp: upload_one_def uploaded_entry_def split: prod.splits sum.splits)

lemma upload_loop_accounting:
  "length (fst (upload_loop env u fs up fl w)) + length (fst (snd (upload_loop env u fs up fl w)))
     = length up + length fl + length fs
   \<and> mset (map up_filename (fst (upload_loop env u fs up fl w)))
       + mset (map failed_filename (fst (snd (upload_loop env u fs up fl w))))
     = mset (map up_filename up) + mset (map failed_filename fl) + mset (map originalname fs)"
proof (induction fs arbitrary: up fl w)
  case Nil
  show ?case by simp
next
  case (Cons f rest)
  obtain r w' where one: "upload_one env w f u = (r, w')" by (cases "upload_one env w f u")
  show ?case
  proof (cases r)
    case (Inl fileError)
    with one Cons.IH[of up "fl @ [\<lparr>failed_filename = originalname f, failed_error = message fileError\<rparr>]"
        "unlink w' (path f)"]
    show ?thesis by simp
  next
    case (Inr entry)
    with one have "up_filename entry = originalname f" by (simp add: upload_one_filename)
    with Inr one Cons.IH[of "up @ [entry]" fl "unlink w' (path f)"]
    show ?thesis by simp
  qed
qed

lemma mset_distinct_disjoint:
  assumes "mset xs + mset ys = mset zs" "distinct zs"
  shows "set xs \<inter> set ys = {}"
proof (rule ccontr)
  assume "set xs \<inter> set ys \<noteq> {}"
  then obtain x where "x \<in> set xs" "x \<in> set ys" by blast
  then have "0 < count (mset xs) x" "0 < count (mset ys) x" by simp_all
  moreover have "count (mset zs) x = count (mset xs) x + count (mset ys) x"
    using arg_cong[OF assms(1), of "\<lambda>m. count m x"] by simp
  ultimately have "count (mset zs) x \<ge> 2" by linarith
  moreover have "count (mset zs) x \<le> 1" using assms(2) by (simp add: distinct_count_atmost_1)
  ultimately show False by simp
qed

text \<open>
  C5. For a batch of \<open>N\<close> files \<^verbatim>\<open>uploadMultiple\<close> always answers 201 with
  \<open>summary.total = N\<close> and \<open>summary.successful + summary.failed = N\<close>, the two
  counts being the lengths of the two lists. Every input filename is in exactly one
  list: the names of the two lists together are the input names, each as often as it
  was sent, and when the input names differ no name is in both lists. A failed file
  never stops the loop: it is recorded in \<open>failed\<close> and the loop goes on with the
  remaining files, which are all accounted for.
\<close>

theorem uploadMultiple_accounting:
  assumes "fs \<noteq> []"
  shows "\<exists>resp w'. uploadMultiple env w (Some fs) u = (Inr resp, w')
     \<and> status resp = 201
     \<and> sum_total (batch_summary (data resp)) = length fs
     \<and> sum_successful (batch_summary (data resp)) = length (uploaded (data resp))
     \<and> sum_failed (batch_summary (data resp)) = length (failed (data resp))
     \<and> sum_successful (batch_summary (data resp)) + sum_failed (batch_summary (data resp)) = length fs
     \<and> mset (map up_filename (uploaded (data resp))) + mset (map failed_filename (failed (data resp)))
         = mset (map originalname fs)
     \<and> (distinct (map originalname fs) \<longrightarrow>
          set (map up_filename (uploaded (data resp))) \<inter> set (map failed_filename (failed (data resp))) = {})
     \<and> (\<forall>fileError w1 f rest ups fls w0.
          upload_one env w0 f u = (Inl fileError, w1) \<longrightarrow>
          upload_loop env u (f # rest) ups fls w0
            = upload_loop env u rest ups
                (fls @ [\<lparr>failed_filename = originalname f, failed_error = message fileError\<rparr>])
                (unlink w1 (path f)))"
proof -
  obtain up fl w' where loop: "upload_loop env u fs [] [] w = (up, fl, w')"
    by (cases "upload_loop env u fs [] [] w") auto
  from upload_loop_accounting[of env u fs "[]" "[]" w] loop
  have len: "length up + length fl = length fs"
    and ms: "mset (map up_filename up) + mset (map failed_filename fl) = mset (map originalname fs)"
    by simp_all
  have dis: "distinct (map originalname fs) \<longrightarrow>
      set (map up_filename up) \<inter> set (map failed_filename fl) = {}"
    using mset_distinct_disjoint[OF ms] by blast
  show ?thesis
    using assms loop len ms dis by (simp add: uploadMultiple_def)
qed

theorem uploadMultiple_accounting_witness:
  "[notes_txt, scan_png, pic_gif] \<noteq> []
   \<and> distinct (map originalname [notes_txt, scan_png, pic_gif])
   \<and> batch_summary (data (projr (fst (uploadMultiple example_env example_world
         (Some [notes_txt, scan_png, pic_gif]) None))))
      = \<lparr>sum_total = 3, sum_successful = 2, sum_failed = 1\<rparr>
   \<and> map up_filename (uploaded (data (projr (fst (uploadMultiple example_env example_world
         (Some [notes_txt, scan_png, pic_gif]) None))))) = [''notes.txt'', ''pic.gif'']
   \<and> map failed_filename (failed (data (projr (fst (uploadMultiple example_env example_world
         (Some [notes_txt, scan_png, pic_gif]) None))))) = [''scan.png'']"
  using uploadMultiple_accounting[of "[notes_txt, scan_png, pic_gif]" example_env example_world None]
  by (simp add: uploadMultiple_def upload_one_def upload_and_save_def uploadFile_def
      uploadFile_try_def getPresignedUrl_def saveFileMetadata_def next_uuid_def new_Date_def
      unlink_def uploaded_entry_def example_env_def example_world_def notes_txt_def
      scan_png_def pic_gif_def startsWith_def truthy_def userId_or_anonymous_def
      storageKey_def new_FileService_def map_set_def Let_def)

section \<open>Pagination\<close>

lemma slice_window:
  assumes "0 \<le> s" "0 \<le> L"
  shows "slice xs s (s + L) = take (nat L) (drop (nat s) xs)"
proof (cases "s < int (length xs)")
  case True
  show ?thesis
  proof (cases "s + L \<le> int (length xs)")
    case True
    with assms \<open>s < int (length xs)\<close> show ?thesis
      by (simp add: slice_def Let_def min_def)
  next
    case False
    with assms \<open>s < int (length xs)\<close>
    have "slice xs s (s + L) = take (nat (int (length xs) - s)) (drop (nat s) xs)"
      by (simp add: slice_def Let_def min_def)
    also have "\<dots> = drop (nat s) xs" using assms by (simp add: nat_diff_distrib)
    also have "\<dots> = take (nat L) (drop (nat s) xs)" using False assms by simp
    finally show ?thesis .
  qed
next
  case False
  with assms show ?thesis by (simp add: slice_def Let_def min_def)
qed

lemma slice_page:
  assumes "1 \<le> L" "1 \<le> p"
  shows "slice xs ((p - 1) * L) ((p - 1) * L + L) = take (nat L) (drop (nat ((p - 1) * L)) xs)"
  using assms by (intro slice_window) simp_all

lemma concat_chunks:
  "concat (map (\<lambda>i. take L (drop (i * L) xs)) [0..<n]) = take (n * L) xs"
proof (induction n)
  case 0 show ?case by simp
next
  case (Suc n)
  have "take (n * L + L) xs = take (n * L) xs @ take L (drop (n * L) xs)"
    by (simp add: take_add)
  with Suc show ?case by (simp add: add.commute)
qed

lemma upto_as_nat: "[1..int n] = map (\<lambda>k. int k + 1) [0..<n]"
proof (induction n)
  case 0 show ?case by simp
next
  case (Suc n)
  have "[1..int (Suc n)] = [1..int n] @ [int n + 1]"
    using upto_rec2[of 1 "int (Suc n)"] by simp
  with Suc show ?case by simp
qed

lemma ceil_div_ceiling: "0 < L \<Longrightarrow> ceil_div T L = Num \<lceil>real T / real_of_int L\<rceil>"
  using ceiling_divide_eq_div[of "int T" L, where 'a = real]
  by (simp add: ceil_div_def)

lemma ceil_div_covers:
  assumes "0 < L"
  shows "int T \<le> (- ((- int T) div L)) * L" and "0 \<le> - ((- int T) div L)"
proof -
  have "(- int T) div L * L \<le> - int T"
    using assms by (metis mult.commute pos_mod_sign add_le_cancel_left mult_div_mod_eq add.right_neutral)
  then show "int T \<le> (- ((- int T) div L)) * L" by simp
  have "(- int T) div L \<le> 0"
    using assms by (simp add: div_nonpos_pos_le0)
  then show "0 \<le> - ((- int T) div L)" by simp
qed

lemma listed_descending:
  "sorted_wrt (\<lambda>a b. uploadedAt a \<ge> uploadedAt b) (listed svc ty se)"
  using sorted_sort_key[of "\<lambda>file. - uploadedAt file"]
  by (simp add: listed_def sort_newest_first_def sorted_map)

lemma listed_stable:
  "filter (\<lambda>file. uploadedAt file = t) (listed svc ty se)
   = filter (\<lambda>file. uploadedAt file = t) (filter_search se (filter_type ty (map_values (files svc))))"
  using sort_key_stable[of "\<lambda>file. - uploadedAt file" "- t"]
  by (simp add: listed_def sort_newest_first_def)

lemma listFiles_fields:
  "page (listFiles svc opts) = (case page_opt opts of None \<Rightarrow> 1 | Some p \<Rightarrow> p)"
  "limit (listFiles svc opts) = (case limit_opt opts of None \<Rightarrow> 20 | Some l \<Rightarrow> l)"
  "total_count (listFiles svc opts) = length (listed svc (type_opt opts) (search_opt opts))"
  "pages (listFiles svc opts) = ceil_div (total_count (listFiles svc opts)) (limit (listFiles svc opts))"
  "hasNext (listFiles svc opts) = lt_num (page (listFiles svc opts)) (pages (listFiles svc opts))"
  "hasPrev (listFiles svc opts) = (page (listFiles svc opts) > 1)"
  "files_page (listFiles svc opts)
     = map to_item (slice (listed svc (type_opt opts) (search_opt opts))
         ((page (listFiles svc opts) - 1) * limit (listFiles svc opts))
         ((page (listFiles svc opts) - 1) * limit (listFiles svc opts) + limit (listFiles svc opts)))"
  by (simp_all add: listFiles_def Let_def)

lemma listFiles_page_items:
  assumes "1 \<le> limit (listFiles svc opts)" "1 \<le> q"
  shows "files_page (listFiles svc (opts\<lparr>page_opt := Some q\<rparr>))
         = map to_item (take (nat (limit (listFiles svc opts)))
              (drop (nat ((q - 1) * limit (listFiles svc opts)))
                 (listed svc (type_opt opts) (search_opt opts))))"
  using assms by (simp add: listFiles_fields slice_page)

lemma sorted_wrt_slice: "sorted_wrt R xs \<Longrightarrow> sorted_wrt R (slice xs a b)"
  by (simp add: slice_def Let_def sorted_wrt_take sorted_wrt_drop)

lemma page_items_descending:
  "sorted_wrt (\<lambda>a b. item_uploadedAt a \<ge> item_uploadedAt b) (files_page (listFiles svc opts))"
proof -
  have "sorted_wrt (\<lambda>a b. uploadedAt a \<ge> uploadedAt b)
          (slice (listed svc (type_opt opts) (search_opt opts))
             ((page (listFiles svc opts) - 1) * limit (listFiles svc opts))
             ((page (listFiles svc opts) - 1) * limit (listFiles svc opts) + limit (listFiles svc opts)))"
    by (rule sorted_wrt_slice) (rule listed_descending)
  then show ?thesis
    by (simp add: listFiles_fields(7) sorted_wrt_map to_item_def)
qed

lemma pages_concat:
  assumes L: "1 \<le> L"
  shows "concat (map (\<lambda>q. take (nat L) (drop (nat ((q - 1) * L)) xs))
                 [1..- ((- int (length xs)) div L)]) = xs"
proof -
  define n where "n = nat (- ((- int (length xs)) div L))"
  have n_int: "int n = - ((- int (length xs)) div L)"
    using ceil_div_covers(2)[of L "length xs"] L by (simp add: n_def)
  have cover: "length xs \<le> n * nat L"
  proof -
    have "int (length xs) \<le> int n * L"
      using ceil_div_covers(1)[of L "length xs"] L n_int by simp
    also have "\<dots> = int (n * nat L)" using L by simp
    finally show ?thesis by linarith
  qed
  have "concat (map (\<lambda>q. take (nat L) (drop (nat ((q - 1) * L)) xs)) [1..int n])
        = concat (map (\<lambda>i. take (nat L) (drop (i * nat L) xs)) [0..<n])"
    using L by (simp add: upto_as_nat comp_def nat_mult_distrib)
  also have "\<dots> = take (n * nat L) xs" by (rule concat_chunks)
  also have "\<dots> = xs" using cover by simp
  finally show ?thesis by (simp add: n_int)
qed

text \<open>
  C6. For every index, every filter combination and every limit \<open>L \<ge> 1\<close> (the route
  admits no other), with \<open>T\<close> records after filtering: \<^verbatim>\<open>listFiles\<close> reports
  \<open>total = T\<close> and \<open>pages = \<lceil>T / L\<rceil>\<close>, \<open>hasNext = (page < pages)\<close>,
  \<open>hasPrev = (page > 1)\<close>, and no items for a page beyond the last. The items of a
  page and the whole filtered list are ordered by \<open>uploadedAt\<close>, newest first, records
  of the same instant staying in the order of the map. The pages \<open>1, \<dots>, pages\<close>
  one after the other are the filtered, sorted list.
\<close>

theorem listFiles_pagination:
  assumes L: "1 \<le> limit (listFiles svc opts)"
  shows "total_count (listFiles svc opts) = length (listed svc (type_opt opts) (search_opt opts))
    \<and> pages (listFiles svc opts)
        = Num \<lceil>real (total_count (listFiles svc opts)) / real_of_int (limit (listFiles svc opts))\<rceil>
    \<and> hasNext (listFiles svc opts)
        = (page (listFiles svc opts)
            < \<lceil>real (total_count (listFiles svc opts)) / real_of_int (limit (listFiles svc opts))\<rceil>)
    \<and> hasPrev (listFiles svc opts) = (page (listFiles svc opts) > 1)
    \<and> (page (listFiles svc opts)
          > \<lceil>real (total_count (listFiles svc opts)) / real_of_int (limit (listFiles svc opts))\<rceil>
        \<longrightarrow> files_page (listFiles svc opts) = [])
    \<and> sorted_wrt (\<lambda>a b. item_uploadedAt a \<ge> item_uploadedAt b) (files_page (listFiles svc opts))
    \<and> sorted_wrt (\<lambda>a b. uploadedAt a \<ge> uploadedAt b) (listed svc (type_opt opts) (search_opt opts))
    \<and> (\<forall>t. filter (\<lambda>file. uploadedAt file = t) (listed svc (type_opt opts) (search_opt opts))
            = filter (\<lambda>file. uploadedAt file = t)
                (filter_search (search_opt opts) (filter_type (type_opt opts) (map_values (files svc)))))
    \<and> concat (map (\<lambda>q. files_page (listFiles svc (opts\<lparr>page_opt := Some q\<rparr>)))
          [1..\<lceil>real (total_count (listFiles svc opts)) / real_of_int (limit (listFiles svc opts))\<rceil>])
        = map to_item (listed svc (type_opt opts) (search_opt opts))"
proof -
  let ?r = "listFiles svc opts"
  let ?all = "listed svc (type_opt opts) (search_opt opts)"
  let ?n = "\<lceil>real (total_count ?r) / real_of_int (limit ?r)\<rceil>"
  have T: "total_count ?r = length ?all" by (simp add: listFiles_fields)
  have pg: "pages ?r = Num ?n"
    using L by (simp add: listFiles_fields(4) ceil_div_ceiling)
  have n_div: "?n = - ((- int (length ?all)) div limit ?r)"
    using pg L by (simp add: listFiles_fields(4) ceil_div_def T)
  have nxt: "hasNext ?r = (page ?r < ?n)"
    by (simp add: listFiles_fields(5) pg)
  have prv: "hasPrev ?r = (page ?r > 1)" by (simp add: listFiles_fields)
  have beyond: "files_page ?r = []" if "page ?r > ?n"
  proof -
    have n0: "0 \<le> ?n" using ceil_div_covers(2)[of "limit ?r" "length ?all"] L n_div by simp
    have p1: "1 \<le> page ?r" using that n0 by linarith
    have "int (length ?all) \<le> ?n * limit ?r"
      using ceil_div_covers(1)[of "limit ?r" "length ?all"] L n_div by simp
    also have "\<dots> \<le> (page ?r - 1) * limit ?r"
      using that L by (intro mult_right_mono) simp_all
    finally have "length ?all \<le> nat ((page ?r - 1) * limit ?r)" by linarith
    then show ?thesis using L p1 by (simp add: listFiles_fields(7) slice_page)
  qed
  have cat: "concat (map (\<lambda>q. files_page (listFiles svc (opts\<lparr>page_opt := Some q\<rparr>))) [1..?n])
             = map to_item ?all"
  proof -
    have "map (\<lambda>q. files_page (listFiles svc (opts\<lparr>page_opt := Some q\<rparr>))) [1..?n]
          = map (\<lambda>q. map to_item (take (nat (limit ?r)) (drop (nat ((q - 1) * limit ?r)) ?all))) [1..?n]"
      using L by (intro map_cong refl listFiles_page_items) simp_all
    then have "concat (map (\<lambda>q. files_page (listFiles svc (opts\<lparr>page_opt := Some q\<rparr>))) [1..?n])
          = concat (map (\<lambda>q. map to_item (take (nat (limit ?r)) (drop (nat ((q - 1) * limit ?r)) ?all))) [1..?n])"
      by (rule arg_cong)
    also have "\<dots> = map to_item (concat (map (\<lambda>q. take (nat (limit ?r)) (drop (nat ((q - 1) * limit ?r)) ?all)) [1..?n]))"
      by (simp only: map_concat map_map comp_def)
    also have "\<dots> = map to_item ?all"
      using pages_concat[OF L, of ?all] by (simp add: n_div)
    finally show ?thesis .
  qed
  show ?thesis
    using T pg nxt prv beyond page_items_descending[of svc opts]
      listed_descending[of svc "type_opt opts" "search_opt opts"]
      listed_stable[of _ svc "type_opt opts" "search_opt opts"] cat
    by blast
qed

theorem listFiles_pagination_witness:
  "1 \<le> limit (listFiles example_index example_options)
   \<and> total_count (listFiles example_index example_options) = 3
   \<and> pages (listFiles example_index example_options) = Num 2
   \<and> hasNext (listFiles example_index example_options) = False
   \<and> hasPrev (listFiles example_index example_options) = True
   \<and> map item_fileId (files_page (listFiles example_index example_options)) = [''f3'']
   \<and> map fileId (listed example_index None None) = [''f2'', ''f1'', ''f3'']
   \<and> concat (map (\<lambda>q. files_page (listFiles example_index (example_options\<lparr>page_opt := Some q\<rparr>))) [1..2])
      = map to_item (listed example_index None None)"
proof -
  have h: "1 \<le> limit (listFiles example_index example_options)"
    by (simp add: listFiles_fields example_options_def)
  have n: "\<lceil>real (total_count (listFiles example_index example_options))
            / real_of_int (limit (listFiles example_index example_options))\<rceil> = 2"
    by (simp add: listFiles_fields example_options_def listed_def example_index_def
        filter_type_def filter_search_def truthy_def map_values_def sort_newest_first_def
        ceiling_divide_eq_div_numeral)
  have l: "map fileId (listed example_index None None) = [''f2'', ''f1'', ''f3'']"
    by (simp add: listed_def example_index_def example_record_def
        filter_type_def filter_search_def truthy_def map_values_def sort_newest_first_def)
  have o: "type_opt example_options = None" "search_opt example_options = None"
       "page (listFiles example_index example_options) = 2"
    by (simp_all add: example_options_def listFiles_fields)
  have f: "map item_fileId (files_page (listFiles example_index example_options)) = [''f3'']"
    by (simp add: listFiles_fields example_options_def listed_def example_index_def example_record_def
        filter_type_def filter_search_def truthy_def map_values_def sort_newest_first_def
        slice_def Let_def to_item_def)
  have len: "length (listed example_index None None) = 3"
    using arg_cong[OF l, of length] by simp
  show ?thesis
    using listFiles_pagination[OF h] h n l o f len by simp
qed

section \<open>Creation\<close>

text \<open>
  C2. A record whose \<open>fileId\<close> is already in the index should make
  \<^verbatim>\<open>saveFileMetadata\<close> fail with a conflict and leave the stored record alone. The
  code has no such check: on the index that holds \<open>f1\<close> the call with another
  record of that identifier returns normally and the index then holds the new record.
\<close>

theorem saveFileMetadata_conflict_counterexample:
  "getFileMetadata example_index ''f1''
     = Some (example_record ''f1'' ''notes.txt'' ''text/plain'' 10 100)
   \<and> fst (saveFileMetadata example_index (example_record ''f1'' ''other.txt'' ''text/plain'' 7 500) 600 600)
     = example_record ''f1'' ''other.txt'' ''text/plain'' 7 500 \<lparr>createdAt := Some 600, updatedAt := Some 600\<rparr>
   \<and> getFileMetadata
        (snd (saveFileMetadata example_index (example_record ''f1'' ''other.txt'' ''text/plain'' 7 500) 600 600))
        ''f1''
     \<noteq> getFileMetadata example_index ''f1''"
  by (simp add: saveFileMetadata_def getFileMetadata_def map_get_def map_set_def
      example_index_def example_record_def Let_def)

text \<open>
  C2, as the code has it. \<^verbatim>\<open>saveFileMetadata\<close> never fails: for every index and every
  argument it returns the new record and stores it under the argument's \<open>fileId\<close>. A
  record already stored under that identifier is replaced where it stands; otherwise
  the record is added at the end. No other record and neither of the other two maps
  changes.
\<close>

theorem saveFileMetadata_replaces:
  "getFileMetadata (snd (saveFileMetadata svc md t1 t2)) (fileId md)
     = Some (fst (saveFileMetadata svc md t1 t2))
   \<and> fst (saveFileMetadata svc md t1 t2)
     = md\<lparr>createdAt := Some t1, updatedAt := Some t2, accessCount := Some 0, lastAccessed := Null\<rparr>
   \<and> (\<forall>k. k \<noteq> fileId md \<longrightarrow>
         getFileMetadata (snd (saveFileMetadata svc md t1 t2)) k = getFileMetadata svc k)
   \<and> map fst (files (snd (saveFileMetadata svc md t1 t2)))
     = (if getFileMetadata svc (fileId md) \<noteq> None then map fst (files svc)
        else map fst (files svc) @ [fileId md])
   \<and> accessStats (snd (saveFileMetadata svc md t1 t2)) = accessStats svc
   \<and> shareActivity (snd (saveFileMetadata svc md t1 t2)) = shareActivity svc"
  by (simp add: saveFileMetadata_def getFileMetadata_def map_get_set Let_def keys_map_set map_has_get)

theorem saveFileMetadata_replaces_witness:
  "''f2'' \<noteq> fileId (example_record ''f1'' ''other.txt'' ''text/plain'' 7 500)
   \<and> getFileMetadata
        (snd (saveFileMetadata example_index (example_record ''f1'' ''other.txt'' ''text/plain'' 7 500) 600 601))
        ''f2''
      = Some (example_record ''f2'' ''scan.pdf'' ''application/pdf'' 20 300)
   \<and> originalName (fst (saveFileMetadata example_index
         (example_record ''f1'' ''other.txt'' ''text/plain'' 7 500) 600 601)) = ''other.txt''
   \<and> map fst (files (snd (saveFileMetadata example_index
         (example_record ''f1'' ''other.txt'' ''text/plain'' 7 500) 600 601))) = [''f1'', ''f2'', ''f3'']"
  using saveFileMetadata_replaces[of example_index
      "example_record ''f1'' ''other.txt'' ''text/plain'' 7 500" 600 601]
  by (simp add: example_index_def example_record_def getFileMetadata_def map_get_def)

text \<open>
  C10. Every record that \<^verbatim>\<open>saveFileMetadata\<close> creates, and stores under its
  \<open>fileId\<close>, has \<open>accessCount = 0\<close>, \<open>lastAccessed = null\<close>, and
  \<open>createdAt\<close>/\<open>updatedAt\<close> equal to the clock readings of the call, whatever the
  argument held in those four properties; the other properties are the argument's.
\<close>

theorem saveFileMetadata_initial_fields:
  "accessCount (fst (saveFileMetadata svc md t1 t2)) = Some 0
   \<and> lastAccessed (fst (saveFileMetadata svc md t1 t2)) = Null
   \<and> createdAt (fst (saveFileMetadata svc md t1 t2)) = Some t1
   \<and> updatedAt (fst (saveFileMetadata svc md t1 t2)) = Some t2
   \<and> getFileMetadata (snd (saveFileMetadata svc md t1 t2)) (fileId md)
       = Some (fst (saveFileMetadata svc md t1 t2))
   \<and> fst (saveFileMetadata svc md t1 t2)
       = md\<lparr>createdAt := Some t1, updatedAt := Some t2, accessCount := Some 0, lastAccessed := Null\<rparr>"
  by (simp add: saveFileMetadata_def getFileMetadata_def map_get_set Let_def)

theorem saveFileMetadata_initial_fields_witness:
  "accessCount (fst (saveFileMetadata example_index
      (example_record ''f9'' ''new.txt'' ''text/plain'' 1 700
         \<lparr>createdAt := Some 1, updatedAt := Some 2, accessCount := Some 99, lastAccessed := Date 3\<rparr>)
      800 801)) = Some 0
   \<and> lastAccessed (fst (saveFileMetadata example_index
      (example_record ''f9'' ''new.txt'' ''text/plain'' 1 700
         \<lparr>createdAt := Some 1, updatedAt := Some 2, accessCount := Some 99, lastAccessed := Date 3\<rparr>)
      800 801)) = Null
   \<and> createdAt (fst (saveFileMetadata example_index
      (example_record ''f9'' ''new.txt'' ''text/plain'' 1 700
         \<lparr>createdAt := Some 1, updatedAt := Some 2, accessCount := Some 99, lastAccessed := Date 3\<rparr>)
      800 801)) = Some 800
   \<and> updatedAt (fst (saveFileMetadata example_index
      (example_record ''f9'' ''new.txt'' ''text/plain'' 1 700
         \<lparr>createdAt := Some 1, updatedAt := Some 2, accessCount := Some 99, lastAccessed := Date 3\<rparr>)
      800 801)) = Some 801"
  using saveFileMetadata_initial_fields[of example_index
      "example_record ''f9'' ''new.txt'' ''text/plain'' 1 700
         \<lparr>createdAt := Some 1, updatedAt := Some 2, accessCount := Some 99, lastAccessed := Date 3\<rparr>"
      800 801]
  by simp

section \<open>Share activity\<close>

text \<open>
  C4. For a \<open>fileId\<close> that is not in the file index \<^verbatim>\<open>logShareActivity\<close> should
  record nothing. The function never looks at the file index: for the unknown
  identifier \<open>ghost\<close> it records an entry.
\<close>

theorem logShareActivity_unknown_counterexample:
  "getFileMetadata example_index ''ghost'' = None
   \<and> shareActivity (logShareActivity example_index ''ghost'' 3600 1000 1001)
      = [(''ghost'', [\<lparr>sharedAt = 1000, expiresIn = 3600, expiresAt = 3601001\<rparr>])]
   \<and> logShareActivity example_index ''ghost'' 3600 1000 1001 \<noteq> example_index"
  by (simp add: logShareActivity_def getFileMetadata_def map_get_def map_set_def
      example_index_def example_record_def Let_def)

text \<open>
  C4, as the code has it. For every \<open>fileId\<close>, in the file index or not,
  \<^verbatim>\<open>logShareActivity\<close> appends exactly one entry \<open>{sharedAt, expiresIn, expiresAt}\<close>
  to the identifier's list (starting the list when there is none) and changes nothing
  else. An unknown identifier does not reach it through \<^verbatim>\<open>createShareableLink\<close>,
  which answers 404 first and leaves the state as it was.
\<close>

theorem logShareActivity_appends:
  "map_get (shareActivity (logShareActivity svc fid e t1 t2)) fid
     = Some ((case map_get (shareActivity svc) fid of None \<Rightarrow> [] | Some a \<Rightarrow> a)
             @ [\<lparr>sharedAt = t1, expiresIn = e, expiresAt = t2 + e * 1000\<rparr>])
   \<and> (\<forall>k. k \<noteq> fid \<longrightarrow>
         map_get (shareActivity (logShareActivity svc fid e t1 t2)) k = map_get (shareActivity svc) k)
   \<and> files (logShareActivity svc fid e t1 t2) = files svc
   \<and> accessStats (logShareActivity svc fid e t1 t2) = accessStats svc
   \<and> (getFileMetadata (service w) fid = None \<longrightarrow>
         createShareableLink env w fid x = (Inl (AppError ''File not found'' 404), w))"
  by (simp add: logShareActivity_def Let_def map_get_set createShareableLink_def)

theorem logShareActivity_appends_witness:
  "''f1'' \<noteq> ''f2''
   \<and> getFileMetadata (service (example_world\<lparr>service := example_index\<rparr>)) ''ghost'' = None
   \<and> map_get (shareActivity (logShareActivity
        (logShareActivity example_index ''f2'' 3600 1000 1001) ''f2'' 7200 2000 2001)) ''f2''
      = Some [\<lparr>sharedAt = 1000, expiresIn = 3600, expiresAt = 3601001\<rparr>,
              \<lparr>sharedAt = 2000, expiresIn = 7200, expiresAt = 7202001\<rparr>]
   \<and> map_get (shareActivity (logShareActivity example_index ''f2'' 3600 1000 1001)) ''f1'' = None
   \<and> fst (createShareableLink example_env (example_world\<lparr>service := example_index\<rparr>) ''ghost'' None)
      = Inl (AppError ''File not found'' 404)"
  using logShareActivity_appends[of "logShareActivity example_index ''f2'' 3600 1000 1001" "''f2''"
      7200 2000 2001 "example_world\<lparr>service := example_index\<rparr>" example_env None]
    logShareActivity_appends[of example_index "''f2''" 3600 1000 1001
      "example_world\<lparr>service := example_index\<rparr>" example_env None]
    logShareActivity_appends[of example_index "''ghost''" 3600 1000 1001
      "example_world\<lparr>service := example_index\<rparr>" example_env None]
  by (simp add: example_index_def getFileMetadata_def map_get_def logShareActivity_def
      map_set_def createShareableLink_def example_world_def Let_def)

section \<open>Access accounting\<close>

lemma updateAccessStats_absent:
  "getFileMetadata svc fid = None \<Longrightarrow> updateAccessStats svc fid t1 t2 = svc"
  by (simp add: updateAccessStats_def getFileMetadata_def)

lemma updateAccessStats_present:
  "getFileMetadata svc fid = Some md \<Longrightarrow>
   getFileMetadata (updateAccessStats svc fid t1 t2) fid
     = Some (md\<lparr>accessCount := Some (or0 (accessCount md) + 1),
               lastAccessed := Date t1, updatedAt := Some t2\<rparr>)"
  by (simp add: updateAccessStats_def getFileMetadata_def map_get_set)

lemma updateAccessStats_others:
  "k \<noteq> fid \<Longrightarrow> getFileMetadata (updateAccessStats svc fid t1 t2) k = getFileMetadata svc k"
  by (simp add: updateAccessStats_def getFileMetadata_def map_get_set split: option.splits)

lemma updateAccessStats_times_absent:
  "getFileMetadata svc fid = None \<Longrightarrow> updateAccessStats_times svc fid ts = svc"
  by (induction ts arbitrary: svc) (auto simp: updateAccessStats_absent)

lemma updateAccessStats_times_present:
  "getFileMetadata svc fid = Some md \<Longrightarrow>
   \<exists>md'. getFileMetadata (updateAccessStats_times svc fid ts) fid = Some md'
     \<and> or0 (accessCount md') = or0 (accessCount md) + length ts
     \<and> (ts \<noteq> [] \<longrightarrow> lastAccessed md' = Date (fst (last ts)) \<and> updatedAt md' = Some (snd (last ts)))"
proof (induction ts arbitrary: svc md)
  case Nil
  then show ?case by simp
next
  case (Cons t ts)
  obtain t1 t2 where t: "t = (t1, t2)" by (cases t)
  let ?md1 = "md\<lparr>accessCount := Some (or0 (accessCount md) + 1),
                   lastAccessed := Date t1, updatedAt := Some t2\<rparr>"
  have step: "getFileMetadata (updateAccessStats svc fid t1 t2) fid = Some ?md1"
    using Cons.prems by (rule updateAccessStats_present)
  from Cons.IH[OF step] obtain md' where
    md': "getFileMetadata (updateAccessStats_times (updateAccessStats svc fid t1 t2) fid ts) fid = Some md'"
      "or0 (accessCount md') = or0 (accessCount ?md1) + length ts"
      "ts \<noteq> [] \<longrightarrow> lastAccessed md' = Date (fst (last ts)) \<and> updatedAt md' = Some (snd (last ts))"
    by blast
  show ?case
  proof (cases "ts = []")
    case True
    with step t show ?thesis by (simp add: or0_def)
  next
    case False
    with md' t show ?thesis by (simp add: or0_def)
  qed
qed

text \<open>
  C8. \<^verbatim>\<open>updateAccessStats\<close> returns to its caller in every case (it has no
  \<^verbatim>\<open>throw\<close>). For an absent \<open>fileId\<close> it changes nothing. For a present one each call
  adds one to \<open>accessCount\<close> and sets \<open>lastAccessed\<close> and \<open>updatedAt\<close> to its clock
  readings, so \<open>k\<close> successive calls add exactly \<open>k\<close> and leave the readings of the
  last call; no other record changes.
\<close>

theorem updateAccessStats_counts:
  "(getFileMetadata svc fid = None \<longrightarrow>
      updateAccessStats svc fid t1 t2 = svc \<and> updateAccessStats_times svc fid ts = svc)
   \<and> (\<forall>md. getFileMetadata svc fid = Some md \<longrightarrow>
        getFileMetadata (updateAccessStats svc fid t1 t2) fid
          = Some (md\<lparr>accessCount := Some (or0 (accessCount md) + 1),
                    lastAccessed := Date t1, updatedAt := Some t2\<rparr>)
        \<and> (\<exists>md'. getFileMetadata (updateAccessStats_times svc fid ts) fid = Some md'
              \<and> or0 (accessCount md') = or0 (accessCount md) + length ts
              \<and> (ts \<noteq> [] \<longrightarrow> lastAccessed md' = Date (fst (last ts))
                                \<and> updatedAt md' = Some (snd (last ts)))))
   \<and> (\<forall>k. k \<noteq> fid \<longrightarrow>
        getFileMetadata (updateAccessStats svc fid t1 t2) k = getFileMetadata svc k)"
proof (intro conjI allI impI)
  assume "getFileMetadata svc fid = None"
  then show "updateAccessStats svc fid t1 t2 = svc" by (rule updateAccessStats_absent)
next
  assume "getFileMetadata svc fid = None"
  then show "updateAccessStats_times svc fid ts = svc" by (rule updateAccessStats_times_absent)
next
  fix md assume "getFileMetadata svc fid = Some md"
  then show "getFileMetadata (updateAccessStats svc fid t1 t2) fid
          = Some (md\<lparr>accessCount := Some (or0 (accessCount md) + 1),
                    lastAccessed := Date t1, updatedAt := Some t2\<rparr>)"
    by (rule updateAccessStats_present)
next
  fix md assume "getFileMetadata svc fid = Some md"
  then show "\<exists>md'. getFileMetadata (updateAccessStats_times svc fid ts) fid = Some md'
              \<and> or0 (accessCount md') = or0 (accessCount md) + length ts
              \<and> (ts \<noteq> [] \<longrightarrow> lastAccessed md' = Date (fst (last ts))
                                \<and> updatedAt md' = Some (snd (last ts)))"
    by (rule updateAccessStats_times_present)
next
  fix k assume "k \<noteq> fid"
  then show "getFileMetadata (updateAccessStats svc fid t1 t2) k = getFileMetadata svc k"
    by (rule updateAccessStats_others)
qed

theorem updateAccessStats_counts_witness:
  "getFileMetadata example_index ''ghost'' = None
   \<and> updateAccessStats example_index ''ghost'' 5 6 = example_index
   \<and> getFileMetadata example_index ''f2'' = Some (example_record ''f2'' ''scan.pdf'' ''application/pdf'' 20 300)
   \<and> ''f1'' \<noteq> ''f2''
   \<and> (\<exists>md'. getFileMetadata (updateAccessStats_times example_index ''f2'' [(5, 6), (7, 8), (9, 10)]) ''f2''
              = Some md'
         \<and> or0 (accessCount md') = 3 \<and> lastAccessed md' = Date 9 \<and> updatedAt md' = Some 10)
   \<and> getFileMetadata (updateAccessStats example_index ''f2'' 5 6) ''f1''
      = Some (example_record ''f1'' ''notes.txt'' ''text/plain'' 10 100)"
proof -
  have absent: "getFileMetadata example_index ''ghost'' = None"
    by (simp add: getFileMetadata_def map_get_def example_index_def)
  have present: "getFileMetadata example_index ''f2''
      = Some (example_record ''f2'' ''scan.pdf'' ''application/pdf'' 20 300)"
    by (simp add: getFileMetadata_def map_get_def example_index_def)
  have other: "getFileMetadata example_index ''f1''
      = Some (example_record ''f1'' ''notes.txt'' ''text/plain'' 10 100)"
    by (simp add: getFileMetadata_def map_get_def example_index_def)
  have zero: "or0 (accessCount (example_record ''f2'' ''scan.pdf'' ''application/pdf'' 20 300)) = 0"
    by (simp add: or0_def example_record_def)
  show ?thesis
    using updateAccessStats_counts[of example_index "''ghost''" 5 6 "[]"]
      updateAccessStats_counts[of example_index "''f2''" 5 6 "[(5, 6), (7, 8), (9, 10)]"]
      absent present other zero
    by (simp add: numeral_3_eq_3)
qed

section \<open>Deletion\<close>

text \<open>
  C9. \<^verbatim>\<open>deleteFileMetadata\<close> returns in every case. The first call returns
  \<open>true\<close> exactly when the record existed, and afterwards the record, its share
  activity and its access statistics are gone; a second call for the same \<open>fileId\<close>
  returns \<open>false\<close> and changes nothing. Other records and their share activity stay.
\<close>

theorem deleteFileMetadata_idempotent:
  "fst (deleteFileMetadata svc fid) = (getFileMetadata svc fid \<noteq> None)
   \<and> getFileMetadata (snd (deleteFileMetadata svc fid)) fid = None
   \<and> map_get (shareActivity (snd (deleteFileMetadata svc fid))) fid = None
   \<and> map_get (accessStats (snd (deleteFileMetadata svc fid))) fid = None
   \<and> fst (deleteFileMetadata (snd (deleteFileMetadata svc fid)) fid) = False
   \<and> snd (deleteFileMetadata (snd (deleteFileMetadata svc fid)) fid) = snd (deleteFileMetadata svc fid)
   \<and> (\<forall>k. k \<noteq> fid \<longrightarrow>
         getFileMetadata (snd (deleteFileMetadata svc fid)) k = getFileMetadata svc k
         \<and> map_get (shareActivity (snd (deleteFileMetadata svc fid))) k = map_get (shareActivity svc) k)"
  by (simp add: deleteFileMetadata_def getFileMetadata_def map_delete_def map_has_get
      map_get_def delete_conv' Let_def AList.delete_idem map_has_def delete_notin_dom)

theorem deleteFileMetadata_idempotent_witness:
  "''f1'' \<noteq> ''f2''
   \<and> fst (deleteFileMetadata (logShareActivity example_index ''f2'' 3600 1000 1001) ''f2'') = True
   \<and> map fst (files (snd (deleteFileMetadata (logShareActivity example_index ''f2'' 3600 1000 1001) ''f2'')))
      = [''f1'', ''f3'']
   \<and> shareActivity (snd (deleteFileMetadata (logShareActivity example_index ''f2'' 3600 1000 1001) ''f2'')) = []
   \<and> fst (deleteFileMetadata
        (snd (deleteFileMetadata (logShareActivity example_index ''f2'' 3600 1000 1001) ''f2'')) ''f2'') = False
   \<and> getFileMetadata
        (snd (deleteFileMetadata (logShareActivity example_index ''f2'' 3600 1000 1001) ''f2'')) ''f1''
      = Some (example_record ''f1'' ''notes.txt'' ''text/plain'' 10 100)"
  using deleteFileMetadata_idempotent[of "logShareActivity example_index ''f2'' 3600 1000 1001" "''f2''"]
  by (simp add: example_index_def deleteFileMetadata_def map_delete_def logShareActivity_def
      map_get_def map_set_def map_has_def getFileMetadata_def Let_def)

end
